theory Spec2Isabelle
  imports Main
begin

section \<open>Fitbit authorization and token lifecycle (src/auth.ts)\<close>

text \<open>
  The module keeps three module-level variables (\<open>accessToken\<close>, \<open>tokenData\<close>,
  \<open>oauthServer\<close>) and one database table with a single row. Every function below takes
  the state and returns the updated one. What the module cannot decide by itself (the
  clock, the OAuth library, the database connection, the JSON parser) is read from a
  record of the outside world, so that every outcome the code can meet is a branch of
  the model. Everything the module does to the outside is appended to a trace. The
  start-up functions \<open>initializeDatabase\<close> and \<open>initializeAuth\<close> are not covered.
\<close>

subsection \<open>Data\<close>

text \<open>
  What the property \<open>expires_at\<close> holds at run time. The interface declares a string,
  but the casts of lines 233 and 328 check nothing: the token that the OAuth library
  hands over carries a \<open>Date\<close> object there (given here by its time value in
  milliseconds), and a credential that was read back from the table carries the string
  that was written for it.
\<close>

datatype expiry = DateObject int | DateString string

text \<open>The interface \<open>FitbitTokenData\<close>; \<open>expires_at\<close> is the optional field.\<close>

record FitbitTokenData =
  access_token :: string
  refresh_token :: string
  expires_in :: int
  expires_at :: "expiry option"
  scope :: string
  token_type :: string
  user_id :: string

text \<open>
  A thrown value: its message and, for an OAuth error, the optional \<open>response\<close>, of which
  the code only calls \<open>text()\<close> (\<open>None\<close> inside: \<open>text()\<close> rejects).
\<close>

record error =
  message :: string
  response :: "string option option"

text \<open>
  A JSON document, as the \<open>token_data JSONB\<close> column holds it. An object is the map
  of its members: the column does not keep the order in which they were written.
\<close>

datatype json =
    JNull
  | JBool bool
  | JNumber int
  | JString string
  | JArray "json list"
  | JObject "string \<Rightarrow> json option"

text \<open>
  The object \<open>oauthClient.createToken(tokenData)\<close> returns: what its \<open>expired()\<close>
  answers and how its \<open>refresh()\<close> settles.
\<close>

record AccessToken =
  expired :: bool
  refresh :: "error + FitbitTokenData"

text \<open>
  The outside world during one call. \<open>Date_parse\<close> is the time value of
  \<open>new Date(s)\<close> in milliseconds (\<open>None\<close>: an invalid date, whose comparisons are all
  false), \<open>now\<close> the one of \<open>new Date()\<close>. \<open>Date_toISOString\<close> is the string that
  \<open>JSON.stringify\<close> writes for a \<open>Date\<close> object of that time value. \<open>query_result\<close> is
  how \<open>dbPool.query\<close> settles (\<open>None\<close>: it resolves).
\<close>

record world =
  now :: int
  Date_parse :: "string \<Rightarrow> int option"
  Date_toISOString :: "int \<Rightarrow> string"
  createToken :: "FitbitTokenData \<Rightarrow> AccessToken"
  getToken :: "string \<Rightarrow> error + FitbitTokenData"
  query_result :: "error option"
  JSON_parse :: "string \<Rightarrow> error + json"

datatype server = Server nat

datatype effect =
    Log string
  | RefreshRequest FitbitTokenData
  | TokenRequest string
  | Upsert json
  | Select
  | Listen nat
  | Close server
  | Respond nat string

text \<open>
  The module state. \<open>fitbit_token\<close> is the table of that name, from the primary key
  \<open>id\<close> to the \<open>token_data\<close> column (the two timestamp columns are never read).
\<close>

record state =
  accessToken :: "string option"
  tokenData :: "FitbitTokenData option"
  oauthServer :: "server option"
  fitbit_token :: "int \<rightharpoonup> json"
  trace :: "effect list"

definition emit :: "effect list \<Rightarrow> state \<Rightarrow> state" where
  "emit es s = s\<lparr>trace := trace s @ es\<rparr>"

definition PORT :: nat where
  "PORT = 3000"

subsection \<open>The token store\<close>

text \<open>
  \<open>JSON.stringify(tokenData)\<close>, read as the document its text denotes: one member for
  each property that is present, an absent \<open>expires_at\<close> being left out. A string is
  written as it is and a \<open>Date\<close> object as its ISO string, so the document never holds
  a \<open>Date\<close>.
\<close>

definition written :: "world \<Rightarrow> expiry \<Rightarrow> string" where
  "written w x = (case x of DateObject t \<Rightarrow> Date_toISOString w t | DateString e \<Rightarrow> e)"

definition JSON_stringify :: "world \<Rightarrow> FitbitTokenData \<Rightarrow> json" where
  "JSON_stringify w t = JObject (map_of
     ([(''access_token'', JString (access_token t)),
       (''refresh_token'', JString (refresh_token t)),
       (''expires_in'', JNumber (expires_in t))]
      @ (case expires_at t of
           None \<Rightarrow> []
         | Some x \<Rightarrow> [(''expires_at'', JString (written w x))])
      @ [(''scope'', JString (scope t)),
         (''token_type'', JString (token_type t)),
         (''user_id'', JString (user_id t))]))"

text \<open>
  \<open>saveTokenToDB\<close>: the upsert on \<open>id = 1\<close>; a failing query is logged and thrown
  again.
\<close>

definition saveTokenToDB :: "world \<Rightarrow> FitbitTokenData \<Rightarrow> state \<Rightarrow> (error + unit) \<times> state" where
  "saveTokenToDB w td s =
     (case query_result w of
        None \<Rightarrow>
          (Inr (),
           emit [Upsert (JSON_stringify w td), Log ''Token saved to database successfully'']
             (s\<lparr>fitbit_token := (fitbit_token s)(1 \<mapsto> JSON_stringify w td)\<rparr>))
      | Some e \<Rightarrow>
          (Inl e,
           emit [Upsert (JSON_stringify w td),
                 Log (''Error saving token to database: '' @ message e)] s))"

text \<open>
  \<open>loadTokenFromDB\<close>: the rows with \<open>id = 1\<close>; the column is parsed when the driver
  hands it over as a string, and returned as it is otherwise. The cast to
  \<open>FitbitTokenData\<close> does nothing at run time, so the result is the document; the
  document \<open>null\<close> is the value \<open>null\<close>, the one returned when there is no row. Every
  exception ends in \<open>null\<close>.
\<close>

definition nullable :: "json \<Rightarrow> json option" where
  "nullable j = (case j of JNull \<Rightarrow> None | _ \<Rightarrow> Some j)"

definition loadTokenFromDB :: "world \<Rightarrow> state \<Rightarrow> json option \<times> state" where
  "loadTokenFromDB w s =
     (case query_result w of
        Some e \<Rightarrow>
          (None, emit [Select, Log (''Error loading token from database: '' @ message e)] s)
      | None \<Rightarrow>
          (case fitbit_token s 1 of
             None \<Rightarrow> (None, emit [Select, Log ''No token found in database''] s)
           | Some rawTokenData \<Rightarrow>
               (case rawTokenData of
                  JString str \<Rightarrow>
                    (case JSON_parse w str of
                       Inl e \<Rightarrow>
                         (None,
                          emit [Select,
                                Log (''Error loading token from database: '' @ message e)] s)
                     | Inr parsed \<Rightarrow>
                         (nullable parsed,
                          emit [Select, Log ''Token loaded from database successfully''] s))
                | _ \<Rightarrow>
                    (nullable rawTokenData,
                     emit [Select, Log ''Token loaded from database successfully''] s))))"

text \<open>
  A loaded document used as a \<open>FitbitTokenData\<close>: the record of the members that the
  code reads by name, when the document has that shape. A string member \<open>expires_at\<close>
  is the string it is.
\<close>

definition str_member :: "string \<Rightarrow> (string \<Rightarrow> json option) \<Rightarrow> string option" where
  "str_member k members = (case members k of Some (JString v) \<Rightarrow> Some v | _ \<Rightarrow> None)"

definition num_member :: "string \<Rightarrow> (string \<Rightarrow> json option) \<Rightarrow> int option" where
  "num_member k members = (case members k of Some (JNumber v) \<Rightarrow> Some v | _ \<Rightarrow> None)"

definition opt_str_member :: "string \<Rightarrow> (string \<Rightarrow> json option) \<Rightarrow> expiry option option" where
  "opt_str_member k members =
     (case members k of
        None \<Rightarrow> Some None
      | Some (JString v) \<Rightarrow> Some (Some (DateString v))
      | _ \<Rightarrow> None)"

fun asFitbitTokenData :: "json \<Rightarrow> FitbitTokenData option" where
  "asFitbitTokenData (JObject members) =
     Option.bind (str_member ''access_token'' members) (\<lambda>a.
     Option.bind (str_member ''refresh_token'' members) (\<lambda>r.
     Option.bind (num_member ''expires_in'' members) (\<lambda>n.
     Option.bind (opt_str_member ''expires_at'' members) (\<lambda>e.
     Option.bind (str_member ''scope'' members) (\<lambda>sc.
     Option.bind (str_member ''token_type'' members) (\<lambda>tt.
     Option.bind (str_member ''user_id'' members) (\<lambda>u.
       Some \<lparr>access_token = a, refresh_token = r, expires_in = n, expires_at = e,
             scope = sc, token_type = tt, user_id = u\<rparr>)))))))"
| "asFitbitTokenData _ = None"

subsection \<open>getAccessToken\<close>

text \<open>
  The test of line 317, \<open>tokenData.expires_at && new Date(tokenData.expires_at) < new
  Date()\<close>: an absent or empty \<open>expires_at\<close> is falsy, an invalid date compares false.
  \<open>new Date\<close> of a \<open>Date\<close> object has the time value of that object.
\<close>

definition truthy :: "expiry \<Rightarrow> bool" where
  "truthy x = (case x of DateObject t \<Rightarrow> True | DateString e \<Rightarrow> e \<noteq> [])"

definition Date_value :: "world \<Rightarrow> expiry \<Rightarrow> int option" where
  "Date_value w x = (case x of DateObject t \<Rightarrow> Some t | DateString e \<Rightarrow> Date_parse w e)"

definition expiry_passed :: "world \<Rightarrow> FitbitTokenData \<Rightarrow> bool" where
  "expiry_passed w td =
     (case expires_at td of
        None \<Rightarrow> False
      | Some x \<Rightarrow>
          (if truthy x
           then (case Date_value w x of None \<Rightarrow> False | Some t \<Rightarrow> t < now w)
           else False))"

text \<open>The handler \<open>catch (refreshError)\<close> of the function.\<close>

definition catch_refreshError :: "error \<Rightarrow> state \<Rightarrow> string option \<times> state" where
  "catch_refreshError e s =
     (None,
      emit [Log (''Failed to refresh token: '' @ message e)]
        (s\<lparr>accessToken := None, tokenData := None\<rparr>))"

text \<open>
  The function, run from its call to its return with nothing in between. The guard
  \<open>!tokenData || !accessToken\<close> is also true of an empty access token.
\<close>

definition getAccessToken :: "world \<Rightarrow> state \<Rightarrow> string option \<times> state" where
  "getAccessToken w s =
     (case tokenData s of
        None \<Rightarrow> (None, emit [Log ''No valid access token found.''] s)
      | Some td \<Rightarrow>
          (if accessToken s = None \<or> accessToken s = Some []
           then (None, emit [Log ''No valid access token found.''] s)
           else if expiry_passed w td then
             (let s1 = emit [Log ''Token is expired. Attempting to refresh...''] s;
                  accessTokenObj = createToken w td
              in if expired accessTokenObj then
                   (case refresh accessTokenObj of
                      Inl e \<Rightarrow> catch_refreshError e (emit [RefreshRequest td] s1)
                    | Inr refreshedToken \<Rightarrow>
                        (let s2 = (emit [RefreshRequest td] s1)
                                    \<lparr>accessToken := Some (access_token refreshedToken),
                                     tokenData := Some refreshedToken\<rparr>
                         in case saveTokenToDB w refreshedToken s2 of
                              (Inl e, s3) \<Rightarrow> catch_refreshError e s3
                            | (Inr _, s3) \<Rightarrow>
                                (accessToken s3,
                                 emit [Log ''Token refreshed and saved successfully.''] s3)))
                 else (accessToken s1, s1))
           else (accessToken s, s)))"

text \<open>What a trace holds of requests to the provider and of writes to the store.\<close>

definition refresh_requests :: "effect list \<Rightarrow> effect list" where
  "refresh_requests es = filter (\<lambda>e. case e of RefreshRequest _ \<Rightarrow> True | _ \<Rightarrow> False) es"

definition store_writes :: "effect list \<Rightarrow> effect list" where
  "store_writes es = filter (\<lambda>e. case e of Upsert _ \<Rightarrow> True | _ \<Rightarrow> False) es"

subsection \<open>getAccessToken as the event loop runs it\<close>

text \<open>
  The function is \<open>async\<close>: it runs from its call to \<open>await accessTokenObj.refresh()\<close>,
  is resumed when the refresh settles and runs to \<open>await saveTokenToDB(tokenData)\<close>, and
  is resumed again when the save settles. A frame is a call that is suspended or has
  returned, with the local values it still needs. Other code may run between two
  resumptions; the final \<open>return accessToken\<close> reads the module variable as it is then.
\<close>

datatype frame =
    AwaitRefresh world AccessToken
  | AwaitSave world FitbitTokenData
  | Returned "string option"

definition getAccessToken_call :: "world \<Rightarrow> state \<Rightarrow> frame \<times> state" where
  "getAccessToken_call w s =
     (case tokenData s of
        None \<Rightarrow> (Returned None, emit [Log ''No valid access token found.''] s)
      | Some td \<Rightarrow>
          (if accessToken s = None \<or> accessToken s = Some []
           then (Returned None, emit [Log ''No valid access token found.''] s)
           else if expiry_passed w td then
             (let s1 = emit [Log ''Token is expired. Attempting to refresh...''] s;
                  accessTokenObj = createToken w td
              in if expired accessTokenObj
                 then (AwaitRefresh w accessTokenObj, emit [RefreshRequest td] s1)
                 else (Returned (accessToken s1), s1))
           else (Returned (accessToken s), s)))"

fun getAccessToken_resume :: "frame \<Rightarrow> state \<Rightarrow> frame \<times> state" where
  "getAccessToken_resume (AwaitRefresh w accessTokenObj) s =
     (case refresh accessTokenObj of
        Inl e \<Rightarrow> (case catch_refreshError e s of (r, s') \<Rightarrow> (Returned r, s'))
      | Inr refreshedToken \<Rightarrow>
          (AwaitSave w refreshedToken,
           s\<lparr>accessToken := Some (access_token refreshedToken),
             tokenData := Some refreshedToken\<rparr>))"
| "getAccessToken_resume (AwaitSave w td) s =
     (case saveTokenToDB w td s of
        (Inl e, s3) \<Rightarrow> (case catch_refreshError e s3 of (r, s') \<Rightarrow> (Returned r, s'))
      | (Inr _, s3) \<Rightarrow>
          (Returned (accessToken s3),
           emit [Log ''Token refreshed and saved successfully.''] s3))"
| "getAccessToken_resume (Returned r) s = (Returned r, s)"

text \<open>
  The event loop: a tick is a new call of \<open>getAccessToken\<close> or the settling of what the
  \<open>i\<close>-th call awaits.
\<close>

datatype tick = Invoke world | Settle nat

fun event_loop :: "tick list \<Rightarrow> frame list \<times> state \<Rightarrow> frame list \<times> state" where
  "event_loop [] c = c"
| "event_loop (Invoke w # ts) (fs, s) =
     (case getAccessToken_call w s of (f, s') \<Rightarrow> event_loop ts (fs @ [f], s'))"
| "event_loop (Settle i # ts) (fs, s) =
     (if i < length fs
      then (case getAccessToken_resume (fs ! i) s of
              (f, s') \<Rightarrow> event_loop ts (fs[i := f], s'))
      else event_loop ts (fs, s))"

subsection \<open>The authorization flow\<close>

text \<open>
  Of the flow, the parts that read or write the three variables: the start, the
  callback route and the handlers of the server's \<open>error\<close> and \<open>close\<close>. The route
  \<open>/auth\<close> and the function given to \<open>listen\<close> only redirect and open the browser.

  \<open>fitbitConfig.client\<close> is read from the environment when the module is loaded.
\<close>

record config =
  client_id :: string
  client_secret :: string

text \<open>
  \<open>startAuthorizationFlow\<close>: the two guards, then \<open>app.listen(PORT)\<close>, whose handle
  is kept in \<open>oauthServer\<close>.
\<close>

definition startAuthorizationFlow :: "config \<Rightarrow> state \<Rightarrow> state" where
  "startAuthorizationFlow cfg s =
     (case oauthServer s of
        Some running \<Rightarrow> emit [Log ''OAuth server is already running.''] s
      | None \<Rightarrow>
          (if client_id cfg = [] \<or> client_secret cfg = []
           then emit [Log ''Error: Fitbit Client ID or Secret not found. Check environment variables.''] s
           else emit [Listen PORT] (s\<lparr>oauthServer := Some (Server PORT)\<rparr>)))"

text \<open>The handler of the server's \<open>error\<close> event.\<close>

definition on_error :: "error \<Rightarrow> state \<Rightarrow> state" where
  "on_error err s =
     emit [Log (''Error starting temporary OAuth server: '' @ message err)]
       (s\<lparr>oauthServer := None\<rparr>)"

text \<open>The query of a callback request: its \<open>code\<close> parameter, when it has one.\<close>

record request =
  query_code :: "string option"

text \<open>The branch \<open>if (!code)\<close> of the callback route.\<close>

definition code_missing :: "state \<Rightarrow> state" where
  "code_missing s =
     (let s1 = emit [Log ''Authorization code missing in callback.'',
                     Respond 400 ''Error: Authorization code missing.''] s
      in case oauthServer s1 of
           None \<Rightarrow> s1
         | Some srv \<Rightarrow> emit [Close srv] (s1\<lparr>oauthServer := None\<rparr>))"

text \<open>The handler \<open>catch (error)\<close> of the callback route.\<close>

definition catch_exchange :: "error \<Rightarrow> state \<Rightarrow> state" where
  "catch_exchange e s =
     emit ([Log (''Error obtaining access token: '' @ message e)]
           @ (case response e of
                None \<Rightarrow> []
              | Some None \<Rightarrow> [Log ''Could not parse error response body.'']
              | Some (Some details) \<Rightarrow> [Log (''Error details: '' @ details)])
           @ [Respond 500 ''Error obtaining access token. Check MCP server logs.'']) s"

text \<open>
  The \<open>finally\<close> block of the callback route. It asks the server to close; the handle is
  reset by the function given to \<open>close\<close>, which runs once the server has closed.
\<close>

definition finally_close :: "state \<Rightarrow> state" where
  "finally_close s =
     (case oauthServer s of
        None \<Rightarrow> s
      | Some srv \<Rightarrow> emit [Log ''Shutting down temporary OAuth server...'', Close srv] s)"

definition on_closed :: "state \<Rightarrow> state" where
  "on_closed s = emit [Log ''OAuth server closed.''] (s\<lparr>oauthServer := None\<rparr>)"

text \<open>The route \<open>GET /callback\<close>.\<close>

definition callback :: "world \<Rightarrow> request \<Rightarrow> state \<Rightarrow> state" where
  "callback w req s =
     (case query_code req of
        None \<Rightarrow> code_missing s
      | Some code \<Rightarrow>
          (if code = [] then code_missing s
           else
             (let s1 = emit [Log ''Received authorization code. Exchanging for token...'',
                             TokenRequest code] s
              in finally_close
                   (case getToken w code of
                      Inl e \<Rightarrow> catch_exchange e s1
                    | Inr token \<Rightarrow>
                        (let s2 = (emit [Log ''Access Token received successfully!''] s1)
                                    \<lparr>accessToken := Some (access_token token),
                                     tokenData := Some token\<rparr>
                         in case saveTokenToDB w token s2 of
                              (Inl e, s3) \<Rightarrow> catch_exchange e s3
                            | (Inr _, s3) \<Rightarrow>
                                emit [Log ''Token data has been persisted to database'',
                                      Respond 200 ''Authorization successful! You can close this window. The MCP Server is now authenticated.''] s3)))))"

definition listens :: "effect list \<Rightarrow> effect list" where
  "listens es = filter (\<lambda>e. case e of Listen _ \<Rightarrow> True | _ \<Rightarrow> False) es"

subsection \<open>Example inputs\<close>

text \<open>
  A credential as it is after a load from the table (its expiry is a string), one as
  the library hands it over (its expiry is a \<open>Date\<close> object), and one without expiry.
\<close>

definition td_stale :: FitbitTokenData where
  "td_stale = \<lparr>access_token = ''AT1'', refresh_token = ''RT1'', expires_in = 3600,
               expires_at = Some (DateString ''1970-01-01T00:00:01.000Z''),
               scope = ''weight'', token_type = ''Bearer'', user_id = ''U1''\<rparr>"

definition td_fresh :: FitbitTokenData where
  "td_fresh = \<lparr>access_token = ''AT2'', refresh_token = ''RT2'', expires_in = 3600,
               expires_at = Some (DateObject 9000),
               scope = ''weight'', token_type = ''Bearer'', user_id = ''U1''\<rparr>"

definition td_open :: FitbitTokenData where
  "td_open = \<lparr>access_token = ''AT1'', refresh_token = ''RT1'', expires_in = 3600,
              expires_at = None, scope = ''weight'',
              token_type = ''Bearer'', user_id = ''U1''\<rparr>"

definition rejected :: error where
  "rejected = \<lparr>message = ''invalid_grant'', response = Some (Some ''{}'')\<rparr>"

definition unreachable :: error where
  "unreachable = \<lparr>message = ''ECONNREFUSED'', response = None\<rparr>"

definition parse_example :: "string \<Rightarrow> int option" where
  "parse_example str =
     (if str = ''1970-01-01T00:00:01.000Z'' then Some 1000
      else if str = ''1970-01-01T00:00:09.000Z'' then Some 9000
      else None)"

text \<open>The ISO strings of the two instants that the examples use.\<close>

definition iso_example :: "int \<Rightarrow> string" where
  "iso_example t =
     (if t = 1000 then ''1970-01-01T00:00:01.000Z''
      else if t = 9000 then ''1970-01-01T00:00:09.000Z''
      else [])"

text \<open>
  The world at time \<open>t\<close> in which a refresh settles as \<open>r\<close> and a query as \<open>q\<close>; the
  library finds a token expired when its expiry instant is not after \<open>t\<close>.
\<close>

definition world_at :: "int \<Rightarrow> error + FitbitTokenData \<Rightarrow> error option \<Rightarrow> world" where
  "world_at t r q =
     \<lparr>now = t,
      Date_parse = parse_example,
      Date_toISOString = iso_example,
      createToken = (\<lambda>td. \<lparr>expired =
                              (case expires_at td of
                                 None \<Rightarrow> False
                               | Some (DateObject x) \<Rightarrow> x \<le> t
                               | Some (DateString e) \<Rightarrow>
                                   (case parse_example e of
                                      None \<Rightarrow> False
                                    | Some x \<Rightarrow> x \<le> t)),
                            refresh = r\<rparr>),
      getToken = (\<lambda>code. if code = ''abc123'' then Inr td_stale else Inl rejected),
      query_result = q,
      JSON_parse = (\<lambda>str. Inl \<lparr>message = ''SyntaxError'', response = None\<rparr>)\<rparr>"

text \<open>
  The same world, but the token object of the library answers that the token has not
  expired. The answer is the library's own, from its own reading of the clock, taken
  after the test of line 317.
\<close>

definition world_unexpired :: "int \<Rightarrow> error + FitbitTokenData \<Rightarrow> error option \<Rightarrow> world" where
  "world_unexpired t r q =
     (world_at t r q)\<lparr>createToken := (\<lambda>td. \<lparr>expired = False, refresh = r\<rparr>)\<rparr>"

text \<open>The credential \<open>td\<close> in memory and its document in the table.\<close>

definition cached :: "FitbitTokenData \<Rightarrow> state" where
  "cached td =
     \<lparr>accessToken = Some (access_token td), tokenData = Some td, oauthServer = None,
      fitbit_token = [1 \<mapsto> JSON_stringify (world_at 0 (Inl rejected) None) td], trace = []\<rparr>"

definition blank :: state where
  "blank = \<lparr>accessToken = None, tokenData = None, oauthServer = None,
            fitbit_token = Map.empty, trace = []\<rparr>"

definition credentials :: config where
  "credentials = \<lparr>client_id = ''23ABCD'', client_secret = ''s3cret''\<rparr>"

section \<open>Properties\<close>

subsection \<open>Reading the state and the trace\<close>

lemma emit_fields [simp]:
  "trace (emit es s) = trace s @ es"
  "accessToken (emit es s) = accessToken s"
  "tokenData (emit es s) = tokenData s"
  "oauthServer (emit es s) = oauthServer s"
  "fitbit_token (emit es s) = fitbit_token s"
  by (simp_all add: emit_def)

lemma refresh_requests_simps [simp]:
  "refresh_requests [] = []"
  "refresh_requests (xs @ ys) = refresh_requests xs @ refresh_requests ys"
  "refresh_requests (RefreshRequest td # xs) = RefreshRequest td # refresh_requests xs"
  "refresh_requests (Log m # xs) = refresh_requests xs"
  "refresh_requests (Upsert j # xs) = refresh_requests xs"
  by (simp_all add: refresh_requests_def)

lemma store_writes_simps [simp]:
  "store_writes [] = []"
  "store_writes (xs @ ys) = store_writes xs @ store_writes ys"
  "store_writes (RefreshRequest td # xs) = store_writes xs"
  "store_writes (Log m # xs) = store_writes xs"
  "store_writes (Upsert j # xs) = Upsert j # store_writes xs"
  by (simp_all add: store_writes_def)

lemma listens_simps [simp]:
  "listens [] = []"
  "listens (xs @ ys) = listens xs @ listens ys"
  "listens (Listen p # xs) = Listen p # listens xs"
  "listens (Log m # xs) = listens xs"
  by (simp_all add: listens_def)

lemmas expiry_defs = expiry_passed_def truthy_def Date_value_def

lemmas example_defs =
  world_at_def world_unexpired_def cached_def blank_def td_stale_def td_fresh_def td_open_def
  parse_example_def iso_example_def rejected_def unreachable_def credentials_def

subsection \<open>The branches of getAccessToken\<close>

lemma expiry_passed_instant:
  "expires_at td = Some x \<Longrightarrow> truthy x \<Longrightarrow> Date_value w x = Some t \<Longrightarrow>
   expiry_passed w td = (t < now w)"
  by (simp add: expiry_defs)

lemma expiry_not_passed:
  "expires_at td = Some x \<Longrightarrow> Date_value w x = Some t \<Longrightarrow> now w \<le> t \<Longrightarrow>
   \<not> expiry_passed w td"
  by (simp add: expiry_defs)

lemma getAccessToken_no_credential:
  "tokenData s = None \<or> accessToken s = None \<or> accessToken s = Some [] \<Longrightarrow>
   getAccessToken w s = (None, emit [Log ''No valid access token found.''] s)"
  by (auto simp: getAccessToken_def split: option.splits)

lemma getAccessToken_not_passed:
  "tokenData s = Some td \<Longrightarrow> accessToken s = Some a \<Longrightarrow> a \<noteq> [] \<Longrightarrow>
   \<not> expiry_passed w td \<Longrightarrow> getAccessToken w s = (Some a, s)"
  by (simp add: getAccessToken_def)

lemma getAccessToken_rejected:
  assumes "tokenData s = Some td" "accessToken s = Some a" "a \<noteq> []"
    and "expiry_passed w td" "expired (createToken w td)"
    and "refresh (createToken w td) = Inl err"
  shows "getAccessToken w s =
           catch_refreshError err
             (emit [Log ''Token is expired. Attempting to refresh...'', RefreshRequest td] s)"
  using assms by (simp add: getAccessToken_def Let_def emit_def)

lemma getAccessToken_refreshed:
  assumes "tokenData s = Some td" "accessToken s = Some a" "a \<noteq> []"
    and "expiry_passed w td" "expired (createToken w td)"
    and "refresh (createToken w td) = Inr tok"
  shows "getAccessToken w s =
           (case saveTokenToDB w tok
                   ((emit [Log ''Token is expired. Attempting to refresh...'', RefreshRequest td] s)
                      \<lparr>accessToken := Some (access_token tok), tokenData := Some tok\<rparr>) of
              (Inl e, s3) \<Rightarrow> catch_refreshError e s3
            | (Inr u, s3) \<Rightarrow>
                (accessToken s3, emit [Log ''Token refreshed and saved successfully.''] s3))"
  using assms by (simp add: getAccessToken_def Let_def emit_def)

text \<open>
  Once the test of line 317 holds, line 318 logs it, whatever follows.
\<close>

lemma getAccessToken_entered:
  assumes "tokenData s = Some td" "accessToken s = Some a" "a \<noteq> []"
    and "expiry_passed w td"
  shows "take (Suc (length (trace s))) (trace (snd (getAccessToken w s)))
           = trace s @ [Log ''Token is expired. Attempting to refresh...'']"
  using assms
  by (simp add: getAccessToken_def Let_def saveTokenToDB_def catch_refreshError_def
      split: sum.splits option.splits)

lemma getAccessToken_requests:
  assumes "tokenData s = Some td" "accessToken s = Some a" "a \<noteq> []"
    and "expiry_passed w td" "expired (createToken w td)"
  shows "refresh_requests (trace (snd (getAccessToken w s)))
           = refresh_requests (trace s) @ [RefreshRequest td]"
  using assms
  by (simp add: getAccessToken_def Let_def saveTokenToDB_def catch_refreshError_def
      split: sum.splits option.splits)

text \<open>
  A refresh that succeeds and a save that fails: the exception of \<open>saveTokenToDB\<close> is
  thrown inside the same \<open>try\<close> block and reaches the handler written for a failed
  refresh.
\<close>

lemma getAccessToken_unsaved:
  assumes "tokenData s = Some td" "accessToken s = Some a" "a \<noteq> []"
    and "expiry_passed w td" "expired (createToken w td)"
    and "refresh (createToken w td) = Inr tok" "query_result w = Some err"
  shows "fst (getAccessToken w s) = None"
    and "accessToken (snd (getAccessToken w s)) = None"
    and "tokenData (snd (getAccessToken w s)) = None"
    and "fitbit_token (snd (getAccessToken w s)) = fitbit_token s"
  using assms
  by (simp_all add: getAccessToken_refreshed saveTokenToDB_def catch_refreshError_def)

text \<open>
  The callback route assigns both variables before it saves, and its handler does not
  touch them: whatever the save does, the exchanged credential stays in memory.
\<close>

lemma callback_exchange:
  "query_code req = Some code \<Longrightarrow> code \<noteq> [] \<Longrightarrow> getToken w code = Inr tok \<Longrightarrow>
   accessToken (callback w req s) = Some (access_token tok)
   \<and> tokenData (callback w req s) = Some tok"
  by (simp add: callback_def Let_def saveTokenToDB_def finally_close_def catch_exchange_def
      split: option.splits)

subsection \<open>The event loop\<close>


lemma getAccessToken_call_expired:
  "tokenData s = Some td \<Longrightarrow> accessToken s = Some a \<Longrightarrow> a \<noteq> [] \<Longrightarrow>
   expiry_passed w td \<Longrightarrow> expired (createToken w td) \<Longrightarrow>
   getAccessToken_call w s =
     (AwaitRefresh w (createToken w td),
      emit [Log ''Token is expired. Attempting to refresh...'', RefreshRequest td] s)"
  by (simp add: getAccessToken_call_def Let_def emit_def)

text \<open>
  Calls that begin one after the other, none resumed yet: a call that suspends at the
  refresh has changed neither variable, so the next call finds the same expired
  credential.
\<close>

lemma event_loop_invokes:
  "tokenData s = Some td \<Longrightarrow> accessToken s = Some a \<Longrightarrow> a \<noteq> [] \<Longrightarrow>
   list_all (\<lambda>w. expiry_passed w td \<and> expired (createToken w td)) ws \<Longrightarrow>
   fst (event_loop (map Invoke ws) (fs, s)) = fs @ map (\<lambda>w. AwaitRefresh w (createToken w td)) ws
   \<and> refresh_requests (trace (snd (event_loop (map Invoke ws) (fs, s))))
       = refresh_requests (trace s) @ replicate (length ws) (RefreshRequest td)
   \<and> tokenData (snd (event_loop (map Invoke ws) (fs, s))) = Some td
   \<and> accessToken (snd (event_loop (map Invoke ws) (fs, s))) = Some a"
proof (induction ws arbitrary: fs s)
  case Nil
  then show ?case by simp
next
  case (Cons w ws)
  let ?s1 = "emit [Log ''Token is expired. Attempting to refresh...'', RefreshRequest td] s"
  have call: "getAccessToken_call w s = (AwaitRefresh w (createToken w td), ?s1)"
    using Cons.prems by (simp add: getAccessToken_call_expired)
  have rest: "list_all (\<lambda>w. expiry_passed w td \<and> expired (createToken w td)) ws"
    using Cons.prems by simp
  have s1: "tokenData ?s1 = Some td" "accessToken ?s1 = Some a"
    using Cons.prems by simp_all
  note ih = Cons.IH [OF s1 \<open>a \<noteq> []\<close> rest, of "fs @ [AwaitRefresh w (createToken w td)]"]
  show ?case
    using ih by (simp add: call replicate_append_same [symmetric] del: replicate_Suc)
      (simp add: replicate_append_same)
qed

subsection \<open>The store\<close>

text \<open>
  The document of a credential, used as a credential again: every member is what it
  was, and the expiry is the string that was written, also when it was a \<open>Date\<close>.
\<close>

lemma asFitbitTokenData_JSON_stringify:
  "asFitbitTokenData (JSON_stringify w C)
     = Some (C\<lparr>expires_at := map_option (\<lambda>x. DateString (written w x)) (expires_at C)\<rparr>)"
  by (cases "expires_at C")
    (simp_all add: JSON_stringify_def str_member_def num_member_def opt_str_member_def)

lemma loadTokenFromDB_saved:
  assumes "fst (saveTokenToDB w C s) = Inr ()" and "query_result w' = None"
  shows "fst (loadTokenFromDB w' (snd (saveTokenToDB w C s))) = Some (JSON_stringify w C)"
proof -
  have "query_result w = None"
    using assms(1) by (simp add: saveTokenToDB_def split: option.splits)
  then have "fitbit_token (snd (saveTokenToDB w C s)) 1 = Some (JSON_stringify w C)"
    by (simp add: saveTokenToDB_def)
  then show ?thesis
    using assms(2) by (simp add: loadTokenFromDB_def JSON_stringify_def nullable_def)
qed

text \<open>A row that holds the document \<open>null\<close> is one more way to the result \<open>null\<close>.\<close>

lemma loadTokenFromDB_null_document:
  "query_result w = None \<Longrightarrow> fitbit_token s 1 = Some JNull \<Longrightarrow>
   fst (loadTokenFromDB w s) = None"
  by (simp add: loadTokenFromDB_def nullable_def)

section \<open>The claims\<close>

subsection \<open>C1: an expired credential is refreshed once\<close>




subsection \<open>C2: no credential, and a credential that has not expired\<close>

text \<open>
  C2. \<open>getAccessToken\<close> returns null at once when there is no cached credential (it
  only logs a line). For a cached credential whose \<open>expires_at\<close> instant is not before
  the current time it returns the cached access token and leaves the whole state as it
  was, the trace included: no request, no write. The test is the strict comparison of
  the stored instant with the current time, with no margin: at the instant itself the
  credential still counts as valid, and as soon as the instant is before the current
  time, by however little, the function no longer returns at once: it logs that the
  token is expired and, when the token object of the library agrees, issues the refresh
  request. The guard of the function counts an empty access token as no credential,
  hence \<open>a \<noteq> []\<close>.
\<close>

theorem getAccessToken_unexpired:
  "(tokenData s = None \<or> accessToken s = None \<longrightarrow>
      getAccessToken w s = (None, s\<lparr>trace := trace s @ [Log ''No valid access token found.'']\<rparr>))
   \<and> (tokenData s = Some td \<and> accessToken s = Some a \<and> a \<noteq> [] \<and>
        expires_at td = Some x \<and> Date_value w x = Some t \<and> now w \<le> t \<longrightarrow>
      getAccessToken w s = (Some a, s))
   \<and> (tokenData s = Some td \<and> accessToken s = Some a \<and> a \<noteq> [] \<and>
        expires_at td = Some x \<and> truthy x \<and> Date_value w x = Some t \<and> t < now w \<longrightarrow>
      take (Suc (length (trace s))) (trace (snd (getAccessToken w s)))
        = trace s @ [Log ''Token is expired. Attempting to refresh...'']
      \<and> getAccessToken w s \<noteq> (Some a, s)
      \<and> (expired (createToken w td) \<longrightarrow>
           refresh_requests (trace (snd (getAccessToken w s)))
             = refresh_requests (trace s) @ [RefreshRequest td]))"
proof (intro conjI impI)
  assume "tokenData s = None \<or> accessToken s = None"
  then show "getAccessToken w s = (None, s\<lparr>trace := trace s @ [Log ''No valid access token found.'']\<rparr>)"
    using getAccessToken_no_credential [of s w] by (auto simp: emit_def)
next
  assume h: "tokenData s = Some td \<and> accessToken s = Some a \<and> a \<noteq> [] \<and>
        expires_at td = Some x \<and> Date_value w x = Some t \<and> now w \<le> t"
  then have "\<not> expiry_passed w td"
    by (simp add: expiry_not_passed)
  with h show "getAccessToken w s = (Some a, s)"
    by (simp add: getAccessToken_not_passed)
next
  assume h: "tokenData s = Some td \<and> accessToken s = Some a \<and> a \<noteq> [] \<and>
        expires_at td = Some x \<and> truthy x \<and> Date_value w x = Some t \<and> t < now w"
  then have p: "expiry_passed w td"
    by (simp add: expiry_passed_instant)
  with h show e: "take (Suc (length (trace s))) (trace (snd (getAccessToken w s)))
        = trace s @ [Log ''Token is expired. Attempting to refresh...'']"
    by (simp add: getAccessToken_entered)
  show "getAccessToken w s \<noteq> (Some a, s)"
  proof
    assume "getAccessToken w s = (Some a, s)"
    with e show False by simp
  qed
  assume "expired (createToken w td)"
  with h p show "refresh_requests (trace (snd (getAccessToken w s)))
             = refresh_requests (trace s) @ [RefreshRequest td]"
    by (simp add: getAccessToken_requests)
qed

theorem getAccessToken_unexpired_witness:
  "getAccessToken (world_at 5000 (Inl rejected) None) blank
     = (None, blank\<lparr>trace := [Log ''No valid access token found.'']\<rparr>)
   \<and> getAccessToken (world_at 9000 (Inl rejected) None) (cached td_fresh)
     = (Some ''AT2'', cached td_fresh)
   \<and> take 1 (trace (snd (getAccessToken (world_at 9001 (Inl rejected) None) (cached td_fresh))))
     = [Log ''Token is expired. Attempting to refresh...'']
   \<and> getAccessToken (world_at 9001 (Inl rejected) None) (cached td_fresh)
     \<noteq> (Some ''AT2'', cached td_fresh)
   \<and> refresh_requests (trace (snd (getAccessToken (world_at 9001 (Inl rejected) None)
                                      (cached td_fresh)))) = [RefreshRequest td_fresh]"
proof -
  let ?w = "world_at 9000 (Inl rejected) None"
  let ?v = "world_at 9001 (Inl rejected) None"
  let ?x = "DateObject 9000"
  have h1: "tokenData blank = None \<or> accessToken blank = None"
    by (simp add: example_defs)
  have h2: "tokenData (cached td_fresh) = Some td_fresh \<and>
      accessToken (cached td_fresh) = Some ''AT2'' \<and> ''AT2'' \<noteq> [] \<and>
      expires_at td_fresh = Some ?x \<and> Date_value ?w ?x = Some 9000 \<and> now ?w \<le> 9000"
    by (simp add: Date_value_def example_defs)
  have h3: "tokenData (cached td_fresh) = Some td_fresh \<and>
      accessToken (cached td_fresh) = Some ''AT2'' \<and> ''AT2'' \<noteq> [] \<and>
      expires_at td_fresh = Some ?x \<and> truthy ?x \<and> Date_value ?v ?x = Some 9000 \<and> 9000 < now ?v"
    by (simp add: Date_value_def truthy_def example_defs)
  have h4: "expired (createToken ?v td_fresh)"
    by (simp add: example_defs)
  have n: "trace blank = []" "trace (cached td_fresh) = []"
    by (simp_all add: example_defs)
  note a = getAccessToken_unexpired [where s = blank and w = "world_at 5000 (Inl rejected) None"]
  note b = getAccessToken_unexpired [where s = "cached td_fresh" and w = ?w and td = td_fresh
      and a = "''AT2''" and x = ?x and t = 9000]
  note c = getAccessToken_unexpired [where s = "cached td_fresh" and w = ?v and td = td_fresh
      and a = "''AT2''" and x = ?x and t = 9000]
  from a h1 b h2 c h3 h4 n show ?thesis
    by simp
qed

subsection \<open>C3: calls that overlap\<close>

text \<open>
  C3 says that \<open>N\<close> calls of \<open>getAccessToken\<close> made while the credential is expired
  issue one refresh request and observe the same result. The function has no guard
  for a refresh in flight. Below, two calls begin before either is resumed; the
  provider accepts the first refresh and rejects the second: two requests are issued,
  the first caller gets the new token and the second gets null.
\<close>

theorem single_flight_counterexample:
  "fst (event_loop [Invoke (world_at 5000 (Inr td_fresh) None),
                    Invoke (world_at 5000 (Inl rejected) None),
                    Settle 0, Settle 0, Settle 1] ([], cached td_stale))
     = [Returned (Some ''AT2''), Returned None]
   \<and> refresh_requests (trace (snd (event_loop [Invoke (world_at 5000 (Inr td_fresh) None),
                    Invoke (world_at 5000 (Inl rejected) None),
                    Settle 0, Settle 0, Settle 1] ([], cached td_stale))))
     = [RefreshRequest td_stale, RefreshRequest td_stale]"
  by (simp add: getAccessToken_call_def expiry_defs saveTokenToDB_def
      catch_refreshError_def emit_def Let_def example_defs)

text \<open>
  C3, as amended. When \<open>N\<close> calls of \<open>getAccessToken\<close> begin while the cached credential
  is expired and before any of them is resumed, each call suspends at its own refresh:
  \<open>N\<close> refresh requests are issued, one for each call.
\<close>

theorem overlapping_calls_refresh_each:
  assumes "tokenData s = Some td" "accessToken s = Some a" "a \<noteq> []"
    and "list_all (\<lambda>w. expiry_passed w td \<and> expired (createToken w td)) ws"
  shows "fst (event_loop (map Invoke ws) ([], s)) = map (\<lambda>w. AwaitRefresh w (createToken w td)) ws
       \<and> length (refresh_requests (trace (snd (event_loop (map Invoke ws) ([], s)))))
           = length (refresh_requests (trace s)) + length ws"
  using event_loop_invokes [OF assms, of "[]"] by simp

theorem overlapping_calls_refresh_each_witness:
  "list_all (\<lambda>w. expiry_passed w td_stale \<and> expired (createToken w td_stale))
     [world_at 5000 (Inr td_fresh) None, world_at 5000 (Inl rejected) None]
   \<and> length (refresh_requests (trace (snd (event_loop
        (map Invoke [world_at 5000 (Inr td_fresh) None, world_at 5000 (Inl rejected) None])
        ([], cached td_stale))))) = 2"
proof -
  have h: "tokenData (cached td_stale) = Some td_stale"
    "accessToken (cached td_stale) = Some ''AT1''" "''AT1'' \<noteq> []"
    "list_all (\<lambda>w. expiry_passed w td_stale \<and> expired (createToken w td_stale))
       [world_at 5000 (Inr td_fresh) None, world_at 5000 (Inl rejected) None]"
    by (simp_all add: expiry_defs example_defs)
  have t: "trace (cached td_stale) = []"
    by (simp add: example_defs)
  from overlapping_calls_refresh_each [OF h] h(4) t show ?thesis
    by simp
qed

subsection \<open>C4: a save that fails\<close>

text \<open>
  C4 says that a failing save does not roll back the credential in memory, for the code
  exchange and for the refresh. The callback route behaves so (lemma
  \<open>callback_exchange\<close>). \<open>getAccessToken\<close> does not (lemma \<open>getAccessToken_unsaved\<close>):
  the exception of the save is caught by the handler that logs a failed refresh and
  sets both variables to null. With the same failing database, below, the refresh path
  ends with an empty cache and the exchange path with the credential in memory.
\<close>

theorem save_failure_after_refresh_clears_cache:
  "refresh (createToken (world_at 5000 (Inr td_fresh) (Some unreachable)) td_stale) = Inr td_fresh
   \<and> fst (getAccessToken (world_at 5000 (Inr td_fresh) (Some unreachable)) (cached td_stale))
       = None
   \<and> accessToken (snd (getAccessToken (world_at 5000 (Inr td_fresh) (Some unreachable))
                          (cached td_stale))) = None
   \<and> tokenData (snd (getAccessToken (world_at 5000 (Inr td_fresh) (Some unreachable))
                        (cached td_stale))) = None
   \<and> accessToken (callback (world_at 5000 (Inr td_fresh) (Some unreachable))
                     \<lparr>query_code = Some ''abc123''\<rparr> blank) = Some ''AT1''
   \<and> tokenData (callback (world_at 5000 (Inr td_fresh) (Some unreachable))
                   \<lparr>query_code = Some ''abc123''\<rparr> blank) = Some td_stale"
  by (simp add: getAccessToken_def expiry_defs saveTokenToDB_def catch_refreshError_def
      callback_def finally_close_def catch_exchange_def emit_def Let_def example_defs)

subsection \<open>C5: a rejected refresh leaves the store alone\<close>

text \<open>
  C5. When the cached credential is expired and the provider rejects the refresh,
  \<open>getAccessToken\<close> returns null and the table is what it was: nothing is deleted and
  nothing is written.
\<close>

theorem refresh_rejected_store_unchanged:
  assumes "tokenData s = Some td" "accessToken s = Some a" "a \<noteq> []"
    and "expires_at td = Some x" "truthy x" "Date_value w x = Some t" "t < now w"
    and "expired (createToken w td)"
    and "refresh (createToken w td) = Inl err"
  shows "fst (getAccessToken w s) = None
       \<and> fitbit_token (snd (getAccessToken w s)) = fitbit_token s
       \<and> store_writes (trace (snd (getAccessToken w s))) = store_writes (trace s)"
proof -
  have "expiry_passed w td"
    using assms by (simp add: expiry_passed_instant)
  then have "getAccessToken w s =
           catch_refreshError err
             (emit [Log ''Token is expired. Attempting to refresh...'', RefreshRequest td] s)"
    using assms by (simp add: getAccessToken_rejected)
  then show ?thesis
    by (simp add: catch_refreshError_def)
qed

theorem refresh_rejected_store_unchanged_witness:
  "refresh (createToken (world_at 5000 (Inl rejected) None) td_stale) = Inl rejected
   \<and> fst (getAccessToken (world_at 5000 (Inl rejected) None) (cached td_stale)) = None
   \<and> fitbit_token (snd (getAccessToken (world_at 5000 (Inl rejected) None) (cached td_stale))) 1
       = Some (JSON_stringify (world_at 5000 (Inl rejected) None) td_stale)
   \<and> store_writes (trace (snd (getAccessToken (world_at 5000 (Inl rejected) None)
                                  (cached td_stale)))) = []"
proof -
  let ?no = "world_at 5000 (Inl rejected) None"
  let ?x = "DateString ''1970-01-01T00:00:01.000Z''"
  have h: "tokenData (cached td_stale) = Some td_stale"
    "accessToken (cached td_stale) = Some ''AT1''" "''AT1'' \<noteq> []"
    "expires_at td_stale = Some ?x" "truthy ?x"
    "Date_value ?no ?x = Some 1000" "1000 < now ?no" "expired (createToken ?no td_stale)"
    "refresh (createToken ?no td_stale) = Inl rejected"
    by (simp_all add: truthy_def Date_value_def example_defs)
  have t: "fitbit_token (cached td_stale) 1 = Some (JSON_stringify ?no td_stale)"
    "trace (cached td_stale) = []"
    by (simp_all add: JSON_stringify_def written_def example_defs)
  from refresh_rejected_store_unchanged [OF h] h(9) t show ?thesis
    by simp
qed

subsection \<open>C6: one authorization session\<close>

text \<open>
  C6. While the server handle is set, \<open>startAuthorizationFlow\<close> only logs: the handle
  and everything else stay as they are and no listener is bound. Two calls in a row
  bind at most one listener, and exactly one when the first call finds no handle and
  the client id and secret are present.
\<close>

theorem startAuthorizationFlow_single_session:
  "(oauthServer s = Some srv \<longrightarrow>
      startAuthorizationFlow cfg s
        = s\<lparr>trace := trace s @ [Log ''OAuth server is already running.'']\<rparr>)
   \<and> length (listens (trace (startAuthorizationFlow cfg (startAuthorizationFlow cfg s))))
       \<le> Suc (length (listens (trace s)))
   \<and> (oauthServer s = None \<and> client_id cfg \<noteq> [] \<and> client_secret cfg \<noteq> [] \<longrightarrow>
        listens (trace (startAuthorizationFlow cfg (startAuthorizationFlow cfg s)))
          = listens (trace s) @ [Listen PORT]
      \<and> oauthServer (startAuthorizationFlow cfg (startAuthorizationFlow cfg s))
          = oauthServer (startAuthorizationFlow cfg s)
      \<and> oauthServer (startAuthorizationFlow cfg s) = Some (Server PORT))"
  by (auto simp: startAuthorizationFlow_def emit_def split: option.splits)

theorem startAuthorizationFlow_single_session_witness:
  "oauthServer (startAuthorizationFlow credentials blank) = Some (Server PORT)
   \<and> startAuthorizationFlow credentials (startAuthorizationFlow credentials blank)
       = (startAuthorizationFlow credentials blank)
           \<lparr>trace := [Listen PORT, Log ''OAuth server is already running.'']\<rparr>
   \<and> listens (trace (startAuthorizationFlow credentials
                        (startAuthorizationFlow credentials blank))) = [Listen PORT]"
proof -
  let ?s = "startAuthorizationFlow credentials blank"
  have h: "oauthServer ?s = Some (Server PORT)" "trace ?s = [Listen PORT]"
    "oauthServer blank = None \<and> client_id credentials \<noteq> [] \<and> client_secret credentials \<noteq> []"
    "trace blank = []"
    by (simp_all add: startAuthorizationFlow_def emit_def example_defs)
  note a = startAuthorizationFlow_single_session [where s = ?s and cfg = credentials and srv = "Server PORT"]
  note b = startAuthorizationFlow_single_session [where s = blank and cfg = credentials]
  from a b h show ?thesis
    by simp
qed

subsection \<open>C7: a callback without a code\<close>

text \<open>
  C7. A callback request with no \<open>code\<close> parameter is answered with status 400, the
  server is closed when there is a handle and the handle is null afterwards, so that a
  later \<open>startAuthorizationFlow\<close> binds a listener again; \<open>accessToken\<close> and \<open>tokenData\<close>
  are unchanged.
\<close>

theorem callback_code_missing:
  assumes "query_code req = None"
  shows "trace (callback w req s)
           = trace s @ [Log ''Authorization code missing in callback.'',
                        Respond 400 ''Error: Authorization code missing.'']
                     @ (case oauthServer s of None \<Rightarrow> [] | Some srv \<Rightarrow> [Close srv])
       \<and> oauthServer (callback w req s) = None
       \<and> accessToken (callback w req s) = accessToken s
       \<and> tokenData (callback w req s) = tokenData s
       \<and> fitbit_token (callback w req s) = fitbit_token s
       \<and> (client_id cfg \<noteq> [] \<and> client_secret cfg \<noteq> [] \<longrightarrow>
            oauthServer (startAuthorizationFlow cfg (callback w req s)) = Some (Server PORT))"
  using assms
  by (auto simp: callback_def code_missing_def Let_def startAuthorizationFlow_def
      split: option.splits)

theorem callback_code_missing_witness:
  "query_code \<lparr>query_code = None\<rparr> = None
   \<and> trace (callback (world_at 5000 (Inl rejected) None) \<lparr>query_code = None\<rparr>
              (startAuthorizationFlow credentials (cached td_fresh)))
       = [Listen PORT, Log ''Authorization code missing in callback.'',
          Respond 400 ''Error: Authorization code missing.'', Close (Server PORT)]
   \<and> oauthServer (callback (world_at 5000 (Inl rejected) None) \<lparr>query_code = None\<rparr>
                    (startAuthorizationFlow credentials (cached td_fresh))) = None
   \<and> tokenData (callback (world_at 5000 (Inl rejected) None) \<lparr>query_code = None\<rparr>
                  (startAuthorizationFlow credentials (cached td_fresh))) = Some td_fresh
   \<and> oauthServer (startAuthorizationFlow credentials
        (callback (world_at 5000 (Inl rejected) None) \<lparr>query_code = None\<rparr>
           (startAuthorizationFlow credentials (cached td_fresh)))) = Some (Server PORT)"
proof -
  let ?s = "startAuthorizationFlow credentials (cached td_fresh)"
  have h: "query_code \<lparr>query_code = None\<rparr> = None"
    by simp
  have t: "trace ?s = [Listen PORT]" "oauthServer ?s = Some (Server PORT)"
    "tokenData ?s = Some td_fresh"
    "client_id credentials \<noteq> [] \<and> client_secret credentials \<noteq> []"
    by (simp_all add: startAuthorizationFlow_def emit_def example_defs)
  from callback_code_missing [OF h, where s = ?s and cfg = credentials and w = "world_at 5000 (Inl rejected) None"]
    h t show ?thesis
    by simp
qed

subsection \<open>C8: what null from loadTokenFromDB means\<close>

text \<open>
  C8. \<open>loadTokenFromDB\<close> returns null when the table has no row, when the query
  fails and when the column does not parse: the result is the same in the three cases.
\<close>

theorem loadTokenFromDB_null_conflated:
  "(query_result w = None \<and> fitbit_token s 1 = None \<longrightarrow> fst (loadTokenFromDB w s) = None)
   \<and> (query_result w = Some err \<longrightarrow> fst (loadTokenFromDB w s) = None)
   \<and> (query_result w = None \<and> fitbit_token s 1 = Some (JString str)
        \<and> JSON_parse w str = Inl err \<longrightarrow> fst (loadTokenFromDB w s) = None)"
  by (simp add: loadTokenFromDB_def)

theorem loadTokenFromDB_null_conflated_witness:
  "fst (loadTokenFromDB (world_at 5000 (Inl rejected) None) blank) = None
   \<and> fst (loadTokenFromDB (world_at 5000 (Inl rejected) (Some unreachable)) (cached td_fresh))
       = None
   \<and> fst (loadTokenFromDB (world_at 5000 (Inl rejected) None)
            (blank\<lparr>fitbit_token := [1 \<mapsto> JString ''{'']\<rparr>)) = None"
proof -
  let ?w = "world_at 5000 (Inl rejected) None"
  let ?d = "world_at 5000 (Inl rejected) (Some unreachable)"
  let ?s = "blank\<lparr>fitbit_token := [1 \<mapsto> JString ''{'']\<rparr>"
  have h1: "query_result ?w = None \<and> fitbit_token blank 1 = None"
    by (simp add: example_defs)
  have h2: "query_result ?d = Some unreachable"
    by (simp add: example_defs)
  have h3: "query_result ?w = None \<and> fitbit_token ?s 1 = Some (JString ''{'')
      \<and> JSON_parse ?w ''{'' = Inl \<lparr>message = ''SyntaxError'', response = None\<rparr>"
    by (simp add: example_defs)
  note a = loadTokenFromDB_null_conflated [where w = ?w and s = blank]
  note b = loadTokenFromDB_null_conflated [where w = ?d and s = "cached td_fresh" and err = unreachable]
  note c = loadTokenFromDB_null_conflated [where w = ?w and s = ?s and str = "''{''"
      and err = "\<lparr>message = ''SyntaxError'', response = None\<rparr>"]
  from a h1 b h2 c h3 show ?thesis
    by simp
qed

subsection \<open>C9: save, then load\<close>

text \<open>
  C9 says that saving a credential and then loading yields a credential equal to it in
  all fields. The credentials that the code saves come from the OAuth library and hold
  their expiry as a \<open>Date\<close> object; \<open>JSON.stringify\<close> writes its ISO string, and the
  load hands back that string. At the input below the saved credential holds
  \<open>DateObject 9000\<close> and the loaded one \<open>DateString ''1970-01-01T00:00:09.000Z''\<close>.
\<close>

theorem save_load_date_counterexample:
  "expires_at td_fresh = Some (DateObject 9000)
   \<and> fst (saveTokenToDB (world_at 5000 (Inl rejected) None) td_fresh (cached td_stale)) = Inr ()
   \<and> Option.bind
        (fst (loadTokenFromDB (world_at 6000 (Inl rejected) None)
               (snd (saveTokenToDB (world_at 5000 (Inl rejected) None) td_fresh
                      (cached td_stale)))))
        asFitbitTokenData
       = Some (td_fresh\<lparr>expires_at := Some (DateString ''1970-01-01T00:00:09.000Z'')\<rparr>)
   \<and> Option.bind
        (fst (loadTokenFromDB (world_at 6000 (Inl rejected) None)
               (snd (saveTokenToDB (world_at 5000 (Inl rejected) None) td_fresh
                      (cached td_stale)))))
        asFitbitTokenData
       \<noteq> Some td_fresh"
  by (simp add: saveTokenToDB_def loadTokenFromDB_def nullable_def JSON_stringify_def
      written_def str_member_def num_member_def opt_str_member_def emit_def example_defs)

text \<open>
  C9, as amended. After a save of a credential \<open>C\<close> that succeeded, a load whose query
  succeeds returns a document which, used as a credential, equals \<open>C\<close> in every field
  but \<open>expires_at\<close>, and whose \<open>expires_at\<close> is the string that was written for the one
  of \<open>C\<close>: the same string when \<open>C\<close> holds a string, the ISO string of the \<open>Date\<close>
  object when \<open>C\<close> holds one. So the loaded credential equals \<open>C\<close> in all fields when
  the expiry of \<open>C\<close> is absent or a string. What the table held before does not matter.
\<close>

theorem save_load_roundtrip:
  assumes "fst (saveTokenToDB w C s) = Inr ()" and "query_result w' = None"
  shows "Option.bind (fst (loadTokenFromDB w' (snd (saveTokenToDB w C s)))) asFitbitTokenData
           = Some (C\<lparr>expires_at := map_option (\<lambda>x. DateString (written w x)) (expires_at C)\<rparr>)
       \<and> (expires_at C = None \<longrightarrow>
            Option.bind (fst (loadTokenFromDB w' (snd (saveTokenToDB w C s)))) asFitbitTokenData
              = Some C)
       \<and> (expires_at C = Some (DateString e) \<longrightarrow>
            Option.bind (fst (loadTokenFromDB w' (snd (saveTokenToDB w C s)))) asFitbitTokenData
              = Some C)"
proof -
  have l: "Option.bind (fst (loadTokenFromDB w' (snd (saveTokenToDB w C s)))) asFitbitTokenData
      = Some (C\<lparr>expires_at := map_option (\<lambda>x. DateString (written w x)) (expires_at C)\<rparr>)"
    using assms by (simp add: loadTokenFromDB_saved asFitbitTokenData_JSON_stringify)
  have same: "C\<lparr>expires_at := map_option (\<lambda>x. DateString (written w x)) (expires_at C)\<rparr> = C"
    if "expires_at C = None \<or> expires_at C = Some (DateString e)"
    using that by (auto simp: written_def)
  show ?thesis
  proof (intro conjI impI)
    show "Option.bind (fst (loadTokenFromDB w' (snd (saveTokenToDB w C s)))) asFitbitTokenData
      = Some (C\<lparr>expires_at := map_option (\<lambda>x. DateString (written w x)) (expires_at C)\<rparr>)"
      by (rule l)
  next
    assume "expires_at C = None"
    then show "Option.bind (fst (loadTokenFromDB w' (snd (saveTokenToDB w C s))))
        asFitbitTokenData = Some C"
      using l same by metis
  next
    assume "expires_at C = Some (DateString e)"
    then show "Option.bind (fst (loadTokenFromDB w' (snd (saveTokenToDB w C s))))
        asFitbitTokenData = Some C"
      using l same by metis
  qed
qed

theorem save_load_roundtrip_witness:
  "fst (saveTokenToDB (world_at 5000 (Inl rejected) None) td_fresh (cached td_stale)) = Inr ()
   \<and> Option.bind
        (fst (loadTokenFromDB (world_at 6000 (Inl rejected) None)
               (snd (saveTokenToDB (world_at 5000 (Inl rejected) None) td_fresh
                      (cached td_stale)))))
        asFitbitTokenData
       = Some (td_fresh\<lparr>expires_at := Some (DateString ''1970-01-01T00:00:09.000Z'')\<rparr>)
   \<and> expires_at td_stale = Some (DateString ''1970-01-01T00:00:01.000Z'')
   \<and> Option.bind
        (fst (loadTokenFromDB (world_at 6000 (Inl rejected) None)
               (snd (saveTokenToDB (world_at 5000 (Inl rejected) None) td_stale
                      (cached td_fresh)))))
        asFitbitTokenData
       = Some td_stale
   \<and> expires_at td_open = None
   \<and> Option.bind
        (fst (loadTokenFromDB (world_at 6000 (Inl rejected) None)
               (snd (saveTokenToDB (world_at 5000 (Inl rejected) None) td_open
                      (cached td_fresh)))))
        asFitbitTokenData
       = Some td_open"
proof -
  let ?w = "world_at 5000 (Inl rejected) None"
  let ?v = "world_at 6000 (Inl rejected) None"
  have q: "query_result ?v = None"
    by (simp add: example_defs)
  have h: "fst (saveTokenToDB ?w td_fresh (cached td_stale)) = Inr ()"
    "fst (saveTokenToDB ?w td_stale (cached td_fresh)) = Inr ()"
    "fst (saveTokenToDB ?w td_open (cached td_fresh)) = Inr ()"
    by (simp_all add: saveTokenToDB_def example_defs)
  have e: "expires_at td_fresh = Some (DateObject 9000)"
    "written ?w (DateObject 9000) = ''1970-01-01T00:00:09.000Z''"
    "expires_at td_stale = Some (DateString ''1970-01-01T00:00:01.000Z'')"
    "expires_at td_open = None"
    by (simp_all add: written_def example_defs)
  note a = save_load_roundtrip [OF h(1) q, THEN conjunct1]
  note b = save_load_roundtrip [OF h(2) q, where e = "''1970-01-01T00:00:01.000Z''",
      THEN conjunct2, THEN conjunct2, THEN mp, OF e(3)]
  note c = save_load_roundtrip [OF h(3) q, THEN conjunct2, THEN conjunct1, THEN mp, OF e(4)]
  from a have "Option.bind
        (fst (loadTokenFromDB ?v (snd (saveTokenToDB ?w td_fresh (cached td_stale)))))
        asFitbitTokenData
       = Some (td_fresh\<lparr>expires_at := Some (DateString ''1970-01-01T00:00:09.000Z'')\<rparr>)"
    by (simp add: e(1,2))
  with b c h(1) e(3,4) show ?thesis
    by simp
qed

subsection \<open>C10: a credential without an expiry\<close>

text \<open>
  C10. For a cached credential with no \<open>expires_at\<close> field, \<open>getAccessToken\<close> returns
  the cached access token and changes nothing, at any time of the clock: no refresh and
  no write.
\<close>

theorem getAccessToken_no_expiry:
  "tokenData s = Some td \<Longrightarrow> accessToken s = Some a \<Longrightarrow> a \<noteq> [] \<Longrightarrow>
   expires_at td = None \<Longrightarrow> getAccessToken w s = (Some a, s)"
  by (simp add: getAccessToken_not_passed expiry_defs)

theorem getAccessToken_no_expiry_witness:
  "expires_at td_open = None
   \<and> getAccessToken (world_at 5000 (Inl rejected) None) (cached td_open)
       = (Some ''AT1'', cached td_open)"
proof -
  have h: "tokenData (cached td_open) = Some td_open"
    "accessToken (cached td_open) = Some ''AT1''" "''AT1'' \<noteq> []" "expires_at td_open = None"
    by (simp_all add: example_defs)
  from getAccessToken_no_expiry [OF h] h(4) show ?thesis
    by simp
qed

end
